theory Spec2Isabelle
  imports Complex_Main "HOL-Library.Sublist"
begin

section \<open>JavaScript values used by the services\<close>

text \<open>
  Strings are lists of characters; a character stands for a code point below 256
  (Latin-1), which is one UTF-16 unit, so \<open>length\<close> is JavaScript's \<open>.length\<close>.
  An optional argument or a missing array slot (\<open>undefined\<close>) is \<open>None\<close>.
  Numbers are exact: rounding to IEEE doubles is not part of the model.

  A string that arrives in a JSON value is a \<open>ustring\<close>, the list of its UTF-16 code units
  (numbers below 65536), so that it may hold surrogates; \<open>units\<close> gives the code units of
  a string of the first kind.
\<close>

type_synonym ustring = "nat list"

definition units :: "string \<Rightarrow> ustring" where
  "units s = map of_char s"

datatype number = NaN | Infinity bool | Finite real

definition truthyStr :: "'a list option \<Rightarrow> bool" where
  \<comment> \<open>\<open>undefined\<close> and the empty string are falsy\<close>
  "truthyStr s = (case s of None \<Rightarrow> False | Some v \<Rightarrow> v \<noteq> [])"

definition orElse :: "'a list option \<Rightarrow> 'a list \<Rightarrow> 'a list" where
  \<comment> \<open>\<open>s || d\<close> on an optional string\<close>
  "orElse s d = (case s of None \<Rightarrow> d | Some v \<Rightarrow> if v = [] then d else v)"

definition toStr :: "string option \<Rightarrow> string" where
  \<comment> \<open>string concatenation renders a missing value as the word undefined\<close>
  "toStr s = (case s of None \<Rightarrow> ''undefined'' | Some v \<Rightarrow> v)"

definition toLowerCase_char :: "char \<Rightarrow> char" where
  "toLowerCase_char c =
     (let n = (of_char c :: nat)
      in if (65 \<le> n \<and> n \<le> 90) \<or> (192 \<le> n \<and> n \<le> 222 \<and> n \<noteq> 215)
         then char_of (n + 32) else c)"

definition toLowerCase :: "string \<Rightarrow> string" where
  "toLowerCase s = map toLowerCase_char s"

definition isWhiteSpace :: "char \<Rightarrow> bool" where
  \<comment> \<open>tab, line feed, vertical tab, form feed, carriage return, space, no-break space\<close>
  "isWhiteSpace c = ((of_char c :: nat) \<in> {9, 10, 11, 12, 13, 32, 160})"

definition trimStart :: "string \<Rightarrow> string" where
  "trimStart s = dropWhile isWhiteSpace s"

definition trim :: "string \<Rightarrow> string" where
  "trim s = rev (dropWhile isWhiteSpace (rev (trimStart s)))"

definition startsWith :: "'a list \<Rightarrow> 'a list \<Rightarrow> bool" where
  "startsWith s p = prefix p s"

fun includesStr :: "string \<Rightarrow> string \<Rightarrow> bool" where
  \<comment> \<open>\<open>s.includes(q)\<close>: \<open>q\<close> occurs in \<open>s\<close> as a contiguous substring\<close>
  "includesStr [] q = (q = [])"
| "includesStr (x # xs) q = (prefix q (x # xs) \<or> includesStr xs q)"

fun split :: "char \<Rightarrow> string \<Rightarrow> string list" where
  \<comment> \<open>\<open>s.split(c)\<close> for a one-character separator: never the empty array\<close>
  "split c [] = [[]]"
| "split c (x # xs) =
     (if x = c then [] # split c xs
      else (case split c xs of [] \<Rightarrow> [[x]] | w # ws \<Rightarrow> (x # w) # ws))"

definition nthOpt :: "'a list \<Rightarrow> nat \<Rightarrow> 'a option" where
  \<comment> \<open>\<open>xs[i]\<close>: reading past the end gives \<open>undefined\<close>\<close>
  "nthOpt xs i = (if i < length xs then Some (xs ! i) else None)"

function showNat :: "nat \<Rightarrow> string" where
  "showNat n = (if n < 10 then [char_of (48 + n)] else showNat (n div 10) @ [char_of (48 + n mod 10)])"
  by pat_completeness auto
termination
  by (relation "measure id") auto

declare showNat.simps [simp del]

definition showInt :: "int \<Rightarrow> string" where
  \<comment> \<open>an integer-valued number in a template literal: plain decimal digits (JavaScript
      changes to the exponent form from 10^21 on, which the model does not)\<close>
  "showInt i = (if i < 0 then CHR ''-'' # showNat (nat (- i)) else showNat (nat i))"

section \<open>The catalog loader\<close>

record RawBook =
  ident :: string
  code :: string
  title :: string
  series :: string
  author :: string
  lexile :: string
  bl :: number
  genre :: "string option"
  theme :: "string option"
  summary :: string

text \<open>
  \<open>parseFloat\<close> skips leading white space and reads the longest prefix that is a decimal
  literal: an optional sign, then the word Infinity or digits with an optional fraction
  and an optional exponent. With no such prefix the result is \<open>NaN\<close>.
\<close>

definition isDigit :: "char \<Rightarrow> bool" where
  "isDigit c = (48 \<le> (of_char c :: nat) \<and> (of_char c :: nat) \<le> 57)"

definition digitsVal :: "string \<Rightarrow> nat" where
  "digitsVal ds = foldl (\<lambda>a c. 10 * a + ((of_char c :: nat) - 48)) 0 ds"

definition pow10 :: "int \<Rightarrow> real" where
  "pow10 e = (if 0 \<le> e then 10 ^ nat e else 1 / 10 ^ nat (- e))"

definition signedInteger :: "string \<Rightarrow> int option" where
  \<comment> \<open>the digits after an exponent indicator, if there are any\<close>
  "signedInteger s =
     (case s of
        [] \<Rightarrow> None
      | c # r \<Rightarrow>
          if c = CHR ''-'' then
            (if takeWhile isDigit r = [] then None else Some (- int (digitsVal (takeWhile isDigit r))))
          else if c = CHR ''+'' then
            (if takeWhile isDigit r = [] then None else Some (int (digitsVal (takeWhile isDigit r))))
          else
            (if takeWhile isDigit s = [] then None else Some (int (digitsVal (takeWhile isDigit s)))))"

definition exponentPart :: "string \<Rightarrow> int" where
  \<comment> \<open>the exponent that starts the string, 0 when the string starts with none\<close>
  "exponentPart s =
     (case s of
        [] \<Rightarrow> 0
      | c # r \<Rightarrow>
          if c = CHR ''e'' \<or> c = CHR ''E'' then (case signedInteger r of None \<Rightarrow> 0 | Some e \<Rightarrow> e)
          else 0)"

definition unsignedDecimal :: "string \<Rightarrow> number" where
  "unsignedDecimal s =
     (if prefix ''Infinity'' s then Infinity True
      else
        (let ip = takeWhile isDigit s;
             r1 = dropWhile isDigit s;
             fp = (case r1 of [] \<Rightarrow> [] | c # t \<Rightarrow> if c = CHR ''.'' then takeWhile isDigit t else []);
             r2 = (case r1 of [] \<Rightarrow> [] | c # t \<Rightarrow> if c = CHR ''.'' then dropWhile isDigit t else r1)
         in if ip = [] \<and> fp = [] then NaN
            else Finite (real (digitsVal (ip @ fp)) * pow10 (exponentPart r2 - int (length fp)))))"

fun negate :: "number \<Rightarrow> number" where
  "negate NaN = NaN"
| "negate (Infinity b) = Infinity (\<not> b)"
| "negate (Finite r) = Finite (- r)"

definition parseFloat :: "string \<Rightarrow> number" where
  "parseFloat s =
     (case trimStart s of
        [] \<Rightarrow> NaN
      | c # r \<Rightarrow>
          if c = CHR ''-'' then negate (unsignedDecimal r)
          else if c = CHR ''+'' then unsignedDecimal r
          else unsignedDecimal (c # r))"

definition isNaN :: "number \<Rightarrow> bool" where
  "isNaN x = (x = NaN)"

definition TAB :: char where
  "TAB = char_of (9 :: nat)"

definition NEWLINE :: char where
  "NEWLINE = char_of (10 :: nat)"

fun parseLines :: "string list \<Rightarrow> RawBook list" where
  \<comment> \<open>the loop of \<open>parseBookData\<close> over the lines, lines 74-93; \<open>continue\<close> skips the line\<close>
  "parseLines [] = []"
| "parseLines (line # lines) =
     (let cols = split TAB line
      in if length cols < 8 then parseLines lines
         else
           (let b = parseFloat (cols ! 7)
            in if isNaN b then parseLines lines
               else \<lparr>ident = cols ! 0, code = cols ! 2, title = cols ! 3, series = cols ! 4,
                      author = cols ! 5, lexile = cols ! 6, bl = b,
                      genre = nthOpt cols 8, theme = nthOpt cols 10,
                      summary = orElse (nthOpt cols 12) []\<rparr> # parseLines lines))"

definition parseBookData :: "string \<Rightarrow> RawBook list" where
  "parseBookData tsvData = parseLines (split NEWLINE (trim tsvData))"




section \<open>The relevance scorer\<close>

definition addIf :: "bool \<Rightarrow> int \<Rightarrow> int" where
  \<comment> \<open>the contribution of one \<open>if (c) score += k\<close>\<close>
  "addIf c k = (if c then k else 0)"

definition searchText :: "RawBook \<Rightarrow> string" where
  "searchText book =
     toLowerCase (title book @ '' '' @ author book @ '' '' @ toStr (theme book) @ '' ''
                  @ summary book @ '' '' @ toStr (genre book))"

definition queryActive :: "string option \<Rightarrow> bool" where
  \<comment> \<open>\<open>query && query.trim().length > 0\<close>\<close>
  "queryActive query = (case query of None \<Rightarrow> False | Some q \<Rightarrow> q \<noteq> [] \<and> length (trim q) > 0)"

definition queryPoints :: "RawBook \<Rightarrow> string \<Rightarrow> int" where
  \<comment> \<open>lines 117-120, for the raw query string\<close>
  "queryPoints book query =
     (let q = trim (toLowerCase query)
      in addIf (includesStr (toLowerCase (title book)) q) 50
         + addIf (includesStr (toLowerCase (author book)) q) 40
         + addIf (includesStr (searchText book) q) 20)"

definition themePoints :: "string \<Rightarrow> string \<Rightarrow> int" where
  \<comment> \<open>lines 124-134, for the lowercased theme \<open>t\<close> and the searchable text\<close>
  "themePoints t text =
     (if t \<noteq> ''all themes'' then
        addIf (includesStr t ''animals'' \<and> (includesStr text ''animal'' \<or> includesStr text ''dog'' \<or> includesStr text ''cat'' \<or> includesStr text ''zoo'' \<or> includesStr text ''bird'' \<or> includesStr text ''nature'')) 30
        + addIf (includesStr t ''fantasy'' \<and> (includesStr text ''magic'' \<or> includesStr text ''fantasy'' \<or> includesStr text ''wizard'' \<or> includesStr text ''dragon'' \<or> includesStr text ''fairy'')) 30
        + addIf (includesStr t ''history'' \<and> (includesStr text ''history'' \<or> includesStr text ''past'' \<or> includesStr text ''biography'' \<or> includesStr text ''president'' \<or> includesStr text ''war'')) 30
        + addIf (includesStr t ''science'' \<and> (includesStr text ''science'' \<or> includesStr text ''space'' \<or> includesStr text ''planet'' \<or> includesStr text ''math'' \<or> includesStr text ''discover'')) 30
        + addIf (includesStr t ''friendship'' \<and> (includesStr text ''friend'' \<or> includesStr text ''feeling'' \<or> includesStr text ''social'' \<or> includesStr text ''family'')) 30
        + addIf (includesStr t ''mystery'' \<and> (includesStr text ''mystery'' \<or> includesStr text ''detective'' \<or> includesStr text ''solve'' \<or> includesStr text ''adventure'' \<or> includesStr text ''secret'')) 30
        + addIf (includesStr t ''sports'' \<and> (includesStr text ''sport'' \<or> includesStr text ''soccer'' \<or> includesStr text ''baseball'' \<or> includesStr text ''game'' \<or> includesStr text ''hobby'')) 30
        + addIf (includesStr t ''holidays'' \<and> (includesStr text ''holiday'' \<or> includesStr text ''christmas'' \<or> includesStr text ''thanksgiving'' \<or> includesStr text ''season'')) 30
        + addIf (includesStr t ''humor'' \<and> (includesStr text ''humor'' \<or> includesStr text ''funny'' \<or> includesStr text ''silly'' \<or> includesStr text ''clown'' \<or> includesStr text ''joke'')) 30
      else 0)"

definition monthPoints :: "string \<Rightarrow> string \<Rightarrow> int" where
  \<comment> \<open>lines 136-139, for the lowercased month \<open>m\<close> and the searchable text\<close>
  "monthPoints m text =
     addIf (m = ''january'' \<and> (includesStr text ''snow'' \<or> includesStr text ''winter'')) 5
     + addIf (m = ''february'' \<and> (includesStr text ''valentine'' \<or> includesStr text ''heart'')) 5
     + addIf (m = ''october'' \<and> (includesStr text ''halloween'' \<or> includesStr text ''pumpkin'')) 5
     + addIf (m = ''december'' \<and> (includesStr text ''christmas'' \<or> includesStr text ''holiday'')) 5"

definition getRelevancyScore :: "RawBook \<Rightarrow> string \<Rightarrow> string \<Rightarrow> string option \<Rightarrow> int" where
  "getRelevancyScore book month themeArg query =
     (let m = toLowerCase month;
          t = toLowerCase themeArg;
          text = searchText book;
          score = (if queryActive query then queryPoints book (toStr query) else 0)
      in if queryActive query \<and> score < 20 then - 100
         else score + themePoints t text + monthPoints m text)"

section \<open>The category split and the cache key\<close>

definition CACHE_KEY_PREFIX :: string where
  "CACHE_KEY_PREFIX = ''cec_recs_v13_''"

definition cacheKey :: "string \<Rightarrow> string \<Rightarrow> string \<Rightarrow> int \<Rightarrow> string option \<Rightarrow> string" where
  \<comment> \<open>line 151; the parameters in the order of the function's signature\<close>
  "cacheKey grade month themeArg limit query =
     CACHE_KEY_PREFIX @ grade @ ''_'' @ themeArg @ ''_'' @ month @ ''_count_'' @ showInt limit
       @ ''_search_'' @ orElse query ''none''"

definition mustReadCount :: "int \<Rightarrow> int" where
  \<comment> \<open>line 210, for an integer count: \<open>div\<close> on \<open>int\<close> rounds down, as \<open>Math.floor\<close>\<close>
  "mustReadCount limit = max 5 (limit div 2)"

definition recommendedCount :: "int \<Rightarrow> int" where
  "recommendedCount limit = limit - mustReadCount limit"

section \<open>Parsed JSON and the host environment\<close>

text \<open>
  A parsed JSON value; an object is the list of its properties, one entry for each name.
  A value that may be \<open>undefined\<close> is a \<open>json option\<close>.
\<close>

datatype json = JNull | JBool bool | JNum real | JStr ustring | JArr "json list"
  | JObj "(string \<times> json) list"

datatype error = ApiKeyMissing | ServiceError | SyntaxError | TypeError | URIError

type_synonym scored = "RawBook \<times> real"

record curation =
  c_limit :: int
  c_grade :: string
  c_theme :: string
  c_month :: string
  c_query :: string
  c_candidates :: "scored list"
  c_mustRead :: int
  c_recommended :: int

datatype request = Curate curation | Verify string string

datatype reply = Throws | Text "string option"

text \<open>
  What the functions take from their surroundings: the credential, the random source
  (the i-th call of \<open>Math.random\<close> in a pass), the generative service, the JSON built-ins,
  the comparison of a value that is not a number with zero, and the conversion to a
  string of a value that is neither a string nor an integer. A request is
  represented by the values that the source puts into its prompt.
\<close>

record host =
  API_KEY :: "string option"
  Math_random :: "nat \<Rightarrow> real"
  generateContent :: "request \<Rightarrow> reply"
  JSON_parse :: "string \<Rightarrow> json option"
  JSON_stringify :: "json \<Rightarrow> string"
  greaterThanZero :: "json \<Rightarrow> bool"
  ToString :: "json \<Rightarrow> ustring"

fun truthy :: "json option \<Rightarrow> bool" where
  "truthy None = False"
| "truthy (Some JNull) = False"
| "truthy (Some (JBool b)) = b"
| "truthy (Some (JNum r)) = (r \<noteq> 0)"
| "truthy (Some (JStr s)) = (s \<noteq> [])"
| "truthy (Some (JArr xs)) = True"
| "truthy (Some (JObj ps)) = True"

fun getProp :: "json option \<Rightarrow> string \<Rightarrow> error + json option" where
  \<comment> \<open>\<open>v.name\<close> for a name that is not an index: a \<open>TypeError\<close> on \<open>null\<close> and \<open>undefined\<close>\<close>
  "getProp None n = Inl TypeError"
| "getProp (Some JNull) n = Inl TypeError"
| "getProp (Some (JObj ps)) n = Inr (map_of ps n)"
| "getProp (Some (JArr xs)) n = Inr (if n = ''length'' then Some (JNum (real (length xs))) else None)"
| "getProp (Some (JStr s)) n = Inr (if n = ''length'' then Some (JNum (real (length s))) else None)"
| "getProp (Some (JBool b)) n = Inr None"
| "getProp (Some (JNum r)) n = Inr None"

fun firstItem :: "json option \<Rightarrow> error + json option" where
  \<comment> \<open>\<open>v[0]\<close>\<close>
  "firstItem None = Inl TypeError"
| "firstItem (Some JNull) = Inl TypeError"
| "firstItem (Some (JObj ps)) = Inr (map_of ps ''0'')"
| "firstItem (Some (JArr xs)) = Inr (nthOpt xs 0)"
| "firstItem (Some (JStr s)) = Inr (case s of [] \<Rightarrow> None | c # r \<Rightarrow> Some (JStr [c]))"
| "firstItem (Some (JBool b)) = Inr None"
| "firstItem (Some (JNum r)) = Inr None"

fun gt0 :: "host \<Rightarrow> json option \<Rightarrow> bool" where
  \<comment> \<open>\<open>v > 0\<close>\<close>
  "gt0 h None = False"
| "gt0 h (Some (JNum r)) = (0 < r)"
| "gt0 h (Some v) = greaterThanZero h v"

section \<open>The recommendation orchestrator\<close>

datatype effect = RemoveItem string | SetItem string string

fun applyEffect :: "effect \<Rightarrow> (string \<rightharpoonup> string) \<Rightarrow> (string \<rightharpoonup> string)" where
  "applyEffect (RemoveItem k) st = st(k := None)"
| "applyEffect (SetItem k v) st = st(k \<mapsto> v)"


definition scoredCandidates :: "host \<Rightarrow> RawBook list \<Rightarrow> string \<Rightarrow> string \<Rightarrow> string option \<Rightarrow> scored list" where
  \<comment> \<open>lines 171-173: the score with its jitter, then the filter\<close>
  "scoredCandidates h candidates month themeArg query =
     filter (\<lambda>b. snd b > - 5)
       (map (\<lambda>(i, b). (b, real_of_int (getRelevancyScore b month themeArg query) + Math_random h i))
            (enumerate 0 candidates))"





section \<open>The cover-match verification\<close>

definition failedVerdict :: json where
  "failedVerdict = JObj [(''isMatch'', JBool False), (''reason'', JStr (units ''Verification service failed.''))]"

definition NO_RESPONSE :: string where
  "NO_RESPONSE = ''{\"isMatch\": false, \"reason\": \"No response\"}''"

definition verifyRequest :: "string \<Rightarrow> string \<Rightarrow> string \<Rightarrow> request" where
  \<comment> \<open>lines 249-250 and 255: the image data after the first comma, if any, and the prompt\<close>
  "verifyRequest base64Image titleArg authorArg =
     Verify (orElse (nthOpt (split CHR '','' base64Image) 1) base64Image)
            (''Verify if this is the cover for \"'' @ titleArg @ ''\" by \"'' @ authorArg @ ''\".'')"

definition verifyBookCoverMatch :: "host \<Rightarrow> string \<Rightarrow> string \<Rightarrow> string \<Rightarrow> error + json" where
  "verifyBookCoverMatch h base64Image titleArg authorArg =
     (if \<not> truthyStr (API_KEY h) then Inl ApiKeyMissing
      else
        (case generateContent h (verifyRequest base64Image titleArg authorArg) of
           Throws \<Rightarrow> Inr failedVerdict
         | Text t \<Rightarrow>
             (case JSON_parse h (orElse t NO_RESPONSE) of
                None \<Rightarrow> Inr failedVerdict
              | Some v \<Rightarrow> Inr v)))"

section \<open>The cover resolution engine\<close>

text \<open>
  A cover URL comes out of a JSON answer of the network, so it is any JavaScript
  string: a \<open>ustring\<close>, with unpaired surrogates possible. \<open>encodeURIComponent\<close> keeps
  the unreserved characters, escapes the UTF-8 bytes of every other code point, and
  throws a \<open>URIError\<close> (here \<open>None\<close>) on an unpaired surrogate.
\<close>

definition unreservedUnit :: "nat \<Rightarrow> bool" where
  \<comment> \<open>the characters that \<open>encodeURIComponent\<close> keeps\<close>
  "unreservedUnit n =
     ((48 \<le> n \<and> n \<le> 57) \<or> (65 \<le> n \<and> n \<le> 90) \<or> (97 \<le> n \<and> n \<le> 122)
      \<or> n \<in> set (units ''-_.!~*'()''))"

definition percent :: "nat \<Rightarrow> string" where
  "percent n = [CHR ''%'', ''0123456789ABCDEF'' ! (n div 16), ''0123456789ABCDEF'' ! (n mod 16)]"

definition utf8 :: "nat \<Rightarrow> string" where
  \<comment> \<open>the UTF-8 bytes of a code point, each as an escape\<close>
  "utf8 cp =
     (if cp < 128 then percent cp
      else if cp < 2048 then percent (192 + cp div 64) @ percent (128 + cp mod 64)
      else if cp < 65536 then
        percent (224 + cp div 4096) @ percent (128 + (cp div 64) mod 64) @ percent (128 + cp mod 64)
      else
        percent (240 + cp div 262144) @ percent (128 + (cp div 4096) mod 64)
          @ percent (128 + (cp div 64) mod 64) @ percent (128 + cp mod 64))"

definition isLeadSurrogate :: "nat \<Rightarrow> bool" where
  "isLeadSurrogate n = (55296 \<le> n \<and> n \<le> 56319)"

definition isTrailSurrogate :: "nat \<Rightarrow> bool" where
  "isTrailSurrogate n = (56320 \<le> n \<and> n \<le> 57343)"

fun encodeURIComponent :: "ustring \<Rightarrow> string option" where
  "encodeURIComponent [] = Some []"
| "encodeURIComponent (c # cs) =
     (if unreservedUnit c then map_option (\<lambda>r. char_of c # r) (encodeURIComponent cs)
      else if isLeadSurrogate c then
        (case cs of
           [] \<Rightarrow> None
         | d # ds \<Rightarrow>
             if isTrailSurrogate d
             then map_option (\<lambda>r. utf8 ((c - 55296) * 1024 + (d - 56320) + 65536) @ r)
                    (encodeURIComponent ds)
             else None)
      else if isTrailSurrogate c then None
      else map_option (\<lambda>r. utf8 c @ r) (encodeURIComponent cs))"

definition unreserved :: "char \<Rightarrow> bool" where
  "unreserved c = unreservedUnit (of_char c)"

definition encodeChar :: "char \<Rightarrow> string" where
  "encodeChar c = (if unreserved c then [c] else utf8 (of_char c))"

definition encodeLatin1 :: "string \<Rightarrow> string" where
  \<comment> \<open>\<open>encodeURIComponent\<close> on a string of code points below 256, where it cannot throw:
      see \<open>encodeURIComponent_units\<close>\<close>
  "encodeLatin1 s = concat (map encodeChar s)"

fun replaceFirst :: "'a list \<Rightarrow> 'a list \<Rightarrow> 'a list \<Rightarrow> 'a list" where
  \<comment> \<open>\<open>s.replace(pat, rep)\<close> for a string pattern: the first occurrence only\<close>
  "replaceFirst pat rep [] = (if pat = [] then rep else [])"
| "replaceFirst pat rep (x # xs) =
     (if prefix pat (x # xs) then rep @ drop (length pat) (x # xs)
      else x # replaceFirst pat rep xs)"

definition stripProtocol :: "ustring \<Rightarrow> ustring" where
  \<comment> \<open>\<open>url.replace(/^https?:\/\//, '')\<close>\<close>
  "stripProtocol url =
     (if prefix (units ''https://'') url then drop 8 url
      else if prefix (units ''http://'') url then drop 7 url
      else url)"

definition getProxiedUrl :: "ustring \<Rightarrow> error + ustring" where
  "getProxiedUrl url =
     (if startsWith url (units ''data:'') then Inr url
      else (case encodeURIComponent (stripProtocol url) of
              None \<Rightarrow> Inl URIError
            | Some e \<Rightarrow> Inr (units (''https://wsrv.nl/?url='' @ e @ ''&w=400&output=webp''))))"

datatype fetched = NetworkError | Body json

datatype lookup = Resolved ustring | Rejected

definition templateStr :: "host \<Rightarrow> json \<Rightarrow> ustring" where
  \<comment> \<open>a value inside a template literal\<close>
  "templateStr h v =
     (case v of
        JStr s \<Rightarrow> s
      | JNum r \<Rightarrow> if r = real_of_int \<lfloor>r\<rfloor> \<and> \<bar>r\<bar> < 10 ^ 21 then units (showInt \<lfloor>r\<rfloor>) else ToString h v
      | _ \<Rightarrow> ToString h v)"

definition openLibraryUrl :: "string \<Rightarrow> string \<Rightarrow> string" where
  "openLibraryUrl titleArg authorArg =
     ''https://openlibrary.org/search.json?'' @ ''title='' @ encodeLatin1 titleArg
       @ ''&author='' @ encodeLatin1 authorArg @ ''&limit=1''"

definition googleBooksUrl :: "string \<Rightarrow> string \<Rightarrow> string" where
  "googleBooksUrl titleArg authorArg =
     ''https://www.googleapis.com/books/v1/volumes?q='' @ ''intitle:'' @ encodeLatin1 titleArg
       @ '' inauthor:'' @ encodeLatin1 authorArg @ ''&maxResults=1''"

definition fetchOpenLibrary :: "host \<Rightarrow> (string \<Rightarrow> fetched) \<Rightarrow> string \<Rightarrow> string \<Rightarrow> lookup" where
  \<comment> \<open>every exception inside the \<open>try\<close> is swallowed and the function then throws\<close>
  "fetchOpenLibrary h net titleArg authorArg =
     (case net (openLibraryUrl titleArg authorArg) of
        NetworkError \<Rightarrow> Rejected
      | Body data \<Rightarrow>
          (case getProp (Some data) ''docs'' of
             Inl e \<Rightarrow> Rejected
           | Inr docs \<Rightarrow>
               if \<not> truthy docs then Rejected
               else (case getProp docs ''length'' of
                  Inl e \<Rightarrow> Rejected
                | Inr len \<Rightarrow>
                    if \<not> gt0 h len then Rejected
                    else (case firstItem docs of
                       Inl e \<Rightarrow> Rejected
                     | Inr d0 \<Rightarrow>
                         (case getProp d0 ''cover_i'' of
                            Inl e \<Rightarrow> Rejected
                          | Inr None \<Rightarrow> Rejected
                          | Inr (Some c) \<Rightarrow>
                              if truthy (Some c)
                              then Resolved (units ''https://covers.openlibrary.org/b/id/'' @ templateStr h c
                                             @ units ''-L.jpg'')
                              else Rejected)))))"

definition fetchGoogleBooks :: "host \<Rightarrow> (string \<Rightarrow> fetched) \<Rightarrow> string \<Rightarrow> string \<Rightarrow> lookup" where
  \<comment> \<open>a truthy link that is not a string has no \<open>replace\<close>: a \<open>TypeError\<close>, swallowed\<close>
  "fetchGoogleBooks h net titleArg authorArg =
     (case net (googleBooksUrl titleArg authorArg) of
        NetworkError \<Rightarrow> Rejected
      | Body data \<Rightarrow>
          (case getProp (Some data) ''items'' of
             Inl e \<Rightarrow> Rejected
           | Inr items \<Rightarrow>
               if \<not> truthy items then Rejected
               else (case getProp items ''length'' of
                  Inl e \<Rightarrow> Rejected
                | Inr len \<Rightarrow>
                    if \<not> gt0 h len then Rejected
                    else (case firstItem items of
                       Inl e \<Rightarrow> Rejected
                     | Inr i0 \<Rightarrow>
                         (case getProp i0 ''volumeInfo'' of
                            Inl e \<Rightarrow> Rejected
                          | Inr vi \<Rightarrow>
                              (case getProp vi ''imageLinks'' of
                                 Inl e \<Rightarrow> Rejected
                               | Inr imgLinks \<Rightarrow>
                                   if \<not> truthy imgLinks then Rejected
                                   else (case getProp imgLinks ''thumbnail'' of
                                      Inl e \<Rightarrow> Rejected
                                    | Inr th \<Rightarrow>
                                        (case (if truthy th then Inr th else getProp imgLinks ''smallThumbnail'') of
                                           Inl e \<Rightarrow> Rejected
                                         | Inr url \<Rightarrow>
                                             if \<not> truthy url then Rejected
                                             else (case url of
                                                Some (JStr s) \<Rightarrow>
                                                  Resolved (replaceFirst (units ''&zoom=1'') (units ''&zoom=0'')
                                                              (replaceFirst (units ''http://'') (units ''https://'') s))
                                              | _ \<Rightarrow> Rejected)))))))))"

text \<open>
  The race of lines 74-90. The promise is its state: the failure counter and, once
  settled, the value it settled with (\<open>Some None\<close> is the settled \<open>null\<close>). Settling a
  settled promise again has no effect.
\<close>

record race =
  failures :: nat
  settled :: "ustring option option"

definition resolve :: "ustring option \<Rightarrow> race \<Rightarrow> race" where
  "resolve v r = (case settled r of None \<Rightarrow> r\<lparr>settled := Some v\<rparr> | Some w \<Rightarrow> r)"

definition checkFailure :: "race \<Rightarrow> race" where
  "checkFailure r =
     (let r' = r\<lparr>failures := failures r + 1\<rparr>
      in if failures r' = 2 then resolve None r' else r')"

fun onLookup :: "lookup \<Rightarrow> race \<Rightarrow> race" where
  \<comment> \<open>the handlers attached to one lookup, lines 81-84 and 86-89: an exception thrown by
      \<open>getProxiedUrl\<close> inside \<open>then\<close> reaches \<open>.catch(checkFailure)\<close>\<close>
  "onLookup (Resolved url) r =
     (if url \<noteq> [] then
        (case getProxiedUrl url of
           Inr proxied \<Rightarrow> resolve (Some proxied) r
         | Inl e \<Rightarrow> checkFailure r)
      else checkFailure r)"
| "onLookup Rejected r = checkFailure r"

definition lookupFails :: "lookup \<Rightarrow> bool" where
  \<comment> \<open>the lookups whose handlers end in \<open>checkFailure\<close>\<close>
  "lookupFails l =
     (case l of
        Rejected \<Rightarrow> True
      | Resolved url \<Rightarrow> url = [] \<or> (case getProxiedUrl url of Inl e \<Rightarrow> True | Inr p \<Rightarrow> False))"

datatype order = GoogleBooksFirst | OpenLibraryFirst

definition racePromise :: "lookup \<Rightarrow> lookup \<Rightarrow> order \<Rightarrow> race" where
  \<comment> \<open>the promise after both lookups have completed, in the given order of completion\<close>
  "racePromise gb ol ord =
     (case ord of
        GoogleBooksFirst \<Rightarrow> onLookup ol (onLookup gb \<lparr>failures = 0, settled = None\<rparr>)
      | OpenLibraryFirst \<Rightarrow> onLookup gb (onLookup ol \<lparr>failures = 0, settled = None\<rparr>))"

record caches =
  coverCache :: "string \<rightharpoonup> ustring"
  promiseCache :: "string \<rightharpoonup> race"

record card =
  coverUrl :: "ustring option"
  isLoadingImage :: bool

definition coverKey :: "string \<Rightarrow> string \<Rightarrow> string" where
  "coverKey titleArg authorArg = titleArg @ ''-'' @ authorArg"

text \<open>
  One run of \<open>loadCover\<close>, to the end: both lookups of a race that it starts complete
  before the \<open>await\<close> returns. The result is the caches, the card's state and the URLs
  requested from the network by this run; \<open>None\<close> stands for an \<open>await\<close> on a promise
  that never settles.
\<close>

definition loadCover ::
  "host \<Rightarrow> (string \<Rightarrow> fetched) \<Rightarrow> order \<Rightarrow> bool \<Rightarrow> string \<Rightarrow> string \<Rightarrow> caches \<times> card
     \<Rightarrow> ((caches \<times> card) \<times> string list) option" where
  "loadCover h net ord isMounted titleArg authorArg st =
     (let key = coverKey titleArg authorArg;
          c = fst st;
          started = (promiseCache c key = None);
          c1 = (if started
                then c\<lparr>promiseCache := (promiseCache c)(key \<mapsto>
                         racePromise (fetchGoogleBooks h net titleArg authorArg)
                                     (fetchOpenLibrary h net titleArg authorArg) ord)\<rparr>
                else c);
          requests = (if started then [googleBooksUrl titleArg authorArg, openLibraryUrl titleArg authorArg]
                      else [])
      in case promiseCache c1 key of
           None \<Rightarrow> None
         | Some p \<Rightarrow>
             (case settled p of
                None \<Rightarrow> None
              | Some url \<Rightarrow>
                  Some (if isMounted then
                          (case url of
                             None \<Rightarrow> (c1, (snd st)\<lparr>isLoadingImage := False\<rparr>)
                           | Some v \<Rightarrow>
                               if v \<noteq> []
                               then (c1\<lparr>coverCache := (coverCache c1)(key \<mapsto> v)\<rparr>,
                                     (snd st)\<lparr>coverUrl := Some v, isLoadingImage := False\<rparr>)
                               else (c1, (snd st)\<lparr>isLoadingImage := False\<rparr>))
                        else (c1, snd st),
                        requests)))"

definition coverEffect ::
  "host \<Rightarrow> (string \<Rightarrow> fetched) \<Rightarrow> order \<Rightarrow> bool \<Rightarrow> ustring option \<Rightarrow> string \<Rightarrow> string \<Rightarrow> caches \<times> card
     \<Rightarrow> ((caches \<times> card) \<times> string list) option" where
  \<comment> \<open>the effect of lines 28-114: the override, the completed cache, then \<open>loadCover\<close>\<close>
  "coverEffect h net ord isMounted overrideUrl titleArg authorArg st =
     (if truthyStr overrideUrl
      then Some ((fst st, (snd st)\<lparr>coverUrl := overrideUrl, isLoadingImage := False\<rparr>), [])
      else (case coverCache (fst st) (coverKey titleArg authorArg) of
              Some u \<Rightarrow> Some ((fst st, (snd st)\<lparr>coverUrl := Some u, isLoadingImage := False\<rparr>), [])
            | None \<Rightarrow> loadCover h net ord isMounted titleArg authorArg st))"

section \<open>Example inputs\<close>

definition sampleBook :: RawBook where
  "sampleBook = \<lparr>ident = ''1'', code = ''M0001'', title = ''a'', series = [], author = ''b'',
                  lexile = ''500L'', bl = Finite 2, genre = Some ''e'', theme = Some ''c'', summary = ''d''\<rparr>"

definition fullBook :: RawBook where
  "fullBook = \<lparr>ident = ''2'', code = ''M0002'',
     title = ''animal magic history science friend mystery sport christmas humor'',
     series = [], author = ''a'', lexile = ''500L'', bl = Finite 2, genre = None, theme = None,
     summary = []\<rparr>"

definition sampleResult :: json where
  "sampleResult = JObj [(''books'', JArr [JObj [(''id'', JStr (units ''1''))]])]"

definition sampleHost :: host where
  "sampleHost = \<lparr>API_KEY = Some ''key'', Math_random = (\<lambda>i. 1 / 2),
                  generateContent = (\<lambda>r. Text (Some ''R'')),
                  JSON_parse = (\<lambda>s. if s = ''R'' then Some sampleResult else None),
                  JSON_stringify = (\<lambda>v. ''S''),
                  greaterThanZero = (\<lambda>v. False),
                  ToString = (\<lambda>v. [])\<rparr>"


definition surrogateUrl :: ustring where
  \<comment> \<open>a URL that ends in a leading surrogate with no trailing one\<close>
  "surrogateUrl = units ''http://x/'' @ [55357]"

definition downHost :: host where
  \<comment> \<open>the credential is there and the service fails\<close>
  "downHost = sampleHost\<lparr>generateContent := (\<lambda>r. Throws)\<rparr>"

definition noKeyHost :: host where
  "noKeyHost = sampleHost\<lparr>API_KEY := None, generateContent := (\<lambda>r. Throws)\<rparr>"

definition charlotteRow :: string where
  "charlotteRow = ''7'' @ [TAB] @ ''X'' @ [TAB] @ ''M0007'' @ [TAB] @ ''Charlotte's Web'' @ [TAB] @ [] @ [TAB]
                  @ ''E.B. White'' @ [TAB] @ ''680L'' @ [TAB] @ ''3.4'' @ [TAB] @ ''Fiction'' @ [TAB] @ []
                  @ [TAB] @ ''Animals'' @ [TAB] @ [] @ [TAB] @ ''A pig and a spider become friends.''"

definition sampleTsv :: string where
  \<comment> \<open>a good row, a row with too few columns, a row whose eighth column is no number\<close>
  "sampleTsv = charlotteRow @ [NEWLINE] @ ''8'' @ [TAB] @ ''short row'' @ [NEWLINE]
               @ ''9'' @ [TAB] @ ''X'' @ [TAB] @ ''M0009'' @ [TAB] @ ''T'' @ [TAB] @ [] @ [TAB]
               @ ''A'' @ [TAB] @ ''500L'' @ [TAB] @ ''N/A'' @ [TAB] @ ''Fiction''"

definition infinityRow :: string where
  "infinityRow = ''7'' @ [TAB] @ ''X'' @ [TAB] @ ''M0007'' @ [TAB] @ ''Charlotte's Web'' @ [TAB] @ [] @ [TAB]
                 @ ''E.B. White'' @ [TAB] @ ''680L'' @ [TAB] @ ''Infinity''"

definition noCaches :: caches where
  "noCaches = \<lparr>coverCache = Map.empty, promiseCache = Map.empty\<rparr>"

definition failedCaches :: caches where
  \<comment> \<open>the caches after a race for the book T by A in which both lookups failed\<close>
  "failedCaches = noCaches\<lparr>promiseCache := [coverKey ''T'' ''A'' \<mapsto> \<lparr>failures = 2, settled = Some None\<rparr>]\<rparr>"

definition newCard :: card where
  "newCard = \<lparr>coverUrl = None, isLoadingImage = True\<rparr>"

definition downNet :: "string \<Rightarrow> fetched" where
  "downNet url = NetworkError"

definition volumes :: "string \<Rightarrow> json" where
  \<comment> \<open>a Google Books answer with one volume and the given thumbnail\<close>
  "volumes thumb =
     JObj [(''items'', JArr [JObj [(''volumeInfo'',
        JObj [(''imageLinks'', JObj [(''thumbnail'', JStr (units thumb))])])]])]"

definition coverNet :: "string \<Rightarrow> fetched" where
  "coverNet url =
     (if url = googleBooksUrl ''T'' ''A'' then Body (volumes ''http://books.google.com/c?id=1&zoom=1'')
      else NetworkError)"

definition dataNet :: "string \<Rightarrow> fetched" where
  "dataNet url =
     (if url = googleBooksUrl ''T'' ''A'' then Body (volumes ''data:image/png;base64,AAAA'')
      else NetworkError)"

section \<open>Properties of the relevance scorer\<close>

lemma addIf_bounds: "0 \<le> k \<Longrightarrow> 0 \<le> addIf c k \<and> addIf c k \<le> k"
  by (simp add: addIf_def)

lemma nine_bounds:
  "0 \<le> addIf a 30 + addIf b 30 + addIf c 30 + addIf d 30 + addIf e 30 + addIf f 30 + addIf g 30 + addIf h 30 + addIf i 30"
  "addIf a 30 + addIf b 30 + addIf c 30 + addIf d 30 + addIf e 30 + addIf f 30 + addIf g 30 + addIf h 30 + addIf i 30 \<le> 270"
  using addIf_bounds[of 30 a] addIf_bounds[of 30 b] addIf_bounds[of 30 c] addIf_bounds[of 30 d]
    addIf_bounds[of 30 e] addIf_bounds[of 30 f] addIf_bounds[of 30 g] addIf_bounds[of 30 h]
    addIf_bounds[of 30 i]
  by linarith+

lemma themePoints_bounds: "0 \<le> themePoints t text \<and> themePoints t text \<le> 270"
proof (cases "t \<noteq> ''all themes''")
  case True
  show ?thesis
    unfolding themePoints_def if_P[OF True] by (rule conjI[OF nine_bounds(1) nine_bounds(2)])
next
  case False
  then show ?thesis by (simp add: themePoints_def)
qed

lemma monthPoints_bounds: "0 \<le> monthPoints m text \<and> monthPoints m text \<le> 5"
  by (auto simp: monthPoints_def addIf_def)

lemma queryPoints_bounds: "0 \<le> queryPoints book q \<and> queryPoints book q \<le> 110"
  using addIf_bounds[of 50] addIf_bounds[of 40] addIf_bounds[of 20]
  unfolding queryPoints_def Let_def
  by (smt (verit))

lemma includesStr_iff: "includesStr s q \<longleftrightarrow> (\<exists>ps ss. s = ps @ q @ ss)"
proof (induction s)
  case Nil
  then show ?case by auto
next
  case (Cons x xs)
  show ?case
  proof
    assume "includesStr (x # xs) q"
    then consider "prefix q (x # xs)" | "includesStr xs q" by auto
    then show "\<exists>ps ss. x # xs = ps @ q @ ss"
    proof cases
      case 1
      then obtain ss where "x # xs = q @ ss" by (auto simp: prefix_def)
      then have "x # xs = [] @ q @ ss" by simp
      then show ?thesis by blast
    next
      case 2
      with Cons.IH obtain ps ss where "xs = ps @ q @ ss" by blast
      then have "x # xs = (x # ps) @ q @ ss" by simp
      then show ?thesis by blast
    qed
  next
    assume "\<exists>ps ss. x # xs = ps @ q @ ss"
    then obtain ps ss where e: "x # xs = ps @ q @ ss" by blast
    show "includesStr (x # xs) q"
    proof (cases ps)
      case Nil
      with e have "prefix q (x # xs)" by (simp add: prefix_def)
      then show ?thesis by simp
    next
      case (Cons p ps')
      with e have "xs = ps' @ q @ ss" by simp
      with Cons.IH have "includesStr xs q" by blast
      then show ?thesis by simp
    qed
  qed
qed

lemma includesStr_empty: "includesStr s []"
  by (induction s) auto

lemma includesStr_append_left: "includesStr a q \<Longrightarrow> includesStr (a @ b) q"
proof -
  assume "includesStr a q"
  then obtain ps ss where "a = ps @ q @ ss" by (auto simp: includesStr_iff)
  then have "a @ b = ps @ q @ (ss @ b)" by simp
  then show ?thesis unfolding includesStr_iff by blast
qed

lemma includesStr_append_right: "includesStr b q \<Longrightarrow> includesStr (a @ b) q"
proof -
  assume "includesStr b q"
  then obtain ps ss where "b = ps @ q @ ss" by (auto simp: includesStr_iff)
  then have "a @ b = (a @ ps) @ q @ ss" by simp
  then show ?thesis unfolding includesStr_iff by blast
qed

lemma title_in_text: "includesStr (toLowerCase (title book)) q \<Longrightarrow> includesStr (searchText book) q"
  by (simp add: searchText_def toLowerCase_def includesStr_append_left)

lemma author_in_text: "includesStr (toLowerCase (author book)) q \<Longrightarrow> includesStr (searchText book) q"
  by (simp add: searchText_def toLowerCase_def includesStr_append_left includesStr_append_right)

lemma queryPoints_zero:
  "\<not> includesStr (searchText book) (trim (toLowerCase q)) \<Longrightarrow> queryPoints book q = 0"
  unfolding queryPoints_def Let_def addIf_def
  using title_in_text author_in_text by auto

lemma score_inactive: 
  "\<not> queryActive query \<Longrightarrow> getRelevancyScore book month themeArg query
      = themePoints (toLowerCase themeArg) (searchText book) + monthPoints (toLowerCase month) (searchText book)"
  by (simp add: getRelevancyScore_def Let_def)

lemma score_nonneg_or_sentinel:
  "getRelevancyScore book month themeArg query = - 100 \<or> 0 \<le> getRelevancyScore book month themeArg query"
  using themePoints_bounds[of "toLowerCase themeArg" "searchText book"]
        monthPoints_bounds[of "toLowerCase month" "searchText book"]
        queryPoints_bounds[of book "toStr query"]
  by (auto simp: getRelevancyScore_def Let_def)

lemma score_upper: "getRelevancyScore book month themeArg query \<le> 385"
  using themePoints_bounds[of "toLowerCase themeArg" "searchText book"]
        monthPoints_bounds[of "toLowerCase month" "searchText book"]
        queryPoints_bounds[of book "toStr query"]
  by (auto simp: getRelevancyScore_def Let_def)

lemma isWhiteSpace_lower: "isWhiteSpace (toLowerCase_char c) = isWhiteSpace c"
  unfolding isWhiteSpace_def toLowerCase_char_def Let_def by auto

lemma trim_toLowerCase: "trim (toLowerCase s) = toLowerCase (trim s)"
proof -
  have comp: "isWhiteSpace \<circ> toLowerCase_char = isWhiteSpace"
    by (rule ext) (simp add: isWhiteSpace_lower)
  have dw: "dropWhile isWhiteSpace (map toLowerCase_char xs) = map toLowerCase_char (dropWhile isWhiteSpace xs)" for xs
    by (simp add: dropWhile_map comp)
  show ?thesis
    unfolding trim_def trimStart_def toLowerCase_def
    by (simp add: dw rev_map)
qed

lemma trim_Nil: "trim [] = []"
  by (simp add: trim_def trimStart_def)

lemma queryActive_iff: "queryActive query \<longleftrightarrow> (\<exists>q. query = Some q \<and> trim q \<noteq> [])"
  using trim_Nil by (auto simp: queryActive_def split: option.splits)

section \<open>Properties of the cache key, the loader, the cache guard and the race\<close>

lemma showNat_small: "n < 10 \<Longrightarrow> showNat n = [char_of (48 + n)]"
  by (simp add: showNat.simps)

lemma showNat_large: "\<not> n < 10 \<Longrightarrow> showNat n = showNat (n div 10) @ [char_of (48 + n mod 10)]"
  by (subst showNat.simps) simp

lemma showNat_nonempty: "showNat n \<noteq> []"
  by (cases "n < 10") (simp_all add: showNat_small showNat_large)

lemma digit_char_inj:
  "a < 10 \<Longrightarrow> b < 10 \<Longrightarrow> (char_of (48 + a) :: char) = char_of (48 + b) \<Longrightarrow> a = (b :: nat)"
proof -
  assume a: "a < 10" and b: "b < 10" and e: "(char_of (48 + a) :: char) = char_of (48 + b)"
  from e have "(of_char (char_of (48 + a) :: char) :: nat) = of_char (char_of (48 + b) :: char)" by simp
  then have "(48 + a) mod 256 = (48 + b) mod 256" by simp
  with a b show ?thesis by simp
qed

lemma showNat_inj: "showNat n = showNat m \<Longrightarrow> n = m"
proof (induction n arbitrary: m rule: showNat.induct)
  case (1 n)
  show ?case
  proof (cases "n < 10")
    case True
    note n = True
    show ?thesis
    proof (cases "m < 10")
      case True
      with n "1.prems" show ?thesis by (simp add: showNat_small digit_char_inj)
    next
      case False
      with n "1.prems" showNat_nonempty[of "m div 10"] show ?thesis
        by (simp add: showNat_small showNat_large)
    qed
  next
    case False
    note n = False
    show ?thesis
    proof (cases "m < 10")
      case True
      with n "1.prems" showNat_nonempty[of "n div 10"] show ?thesis
        by (simp add: showNat_small showNat_large)
    next
      case False
      with n "1.prems" have e: "showNat (n div 10) = showNat (m div 10)"
        and d: "(char_of (48 + n mod 10) :: char) = char_of (48 + m mod 10)"
        by (simp_all add: showNat_large)
      from "1.IH"[OF n e] have "n div 10 = m div 10" .
      moreover from d have "n mod 10 = m mod 10" by (intro digit_char_inj) simp_all
      ultimately show ?thesis by (metis div_mult_mod_eq)
    qed
  qed
qed

lemma showNat_digits: "c \<in> set (showNat n) \<Longrightarrow> isDigit c"
proof (induction n rule: showNat.induct)
  case (1 n)
  show ?case
  proof (cases "n < 10")
    case True
    with "1.prems" show ?thesis by (auto simp: showNat_small isDigit_def)
  next
    case False
    have "isDigit (char_of (48 + n mod 10))" by (simp add: isDigit_def) 
    with False "1.prems" "1.IH" show ?thesis by (auto simp: showNat_large)
  qed
qed

lemma showInt_inj: "showInt i = showInt j \<Longrightarrow> i = j"
proof -
  assume e: "showInt i = showInt j"
  have nd: "\<not> isDigit CHR ''-''" by (simp add: isDigit_def)
  have hdd: "hd (showNat n) \<noteq> CHR ''-''" for n
    using showNat_digits[of "hd (showNat n)" n] showNat_nonempty[of n] nd by auto
  have ne: "CHR ''-'' # xs \<noteq> showNat n" for xs n
    using hdd[of n] by (metis list.sel(1))
  show ?thesis
  proof (cases "i < 0")
    case True
    note i = True
    show ?thesis
    proof (cases "j < 0")
      case True
      with i e have "showNat (nat (- i)) = showNat (nat (- j))" by (simp add: showInt_def)
      then have "nat (- i) = nat (- j)" by (rule showNat_inj)
      with i True show ?thesis by simp
    next
      case False
      with i e ne show ?thesis by (simp add: showInt_def)
    qed
  next
    case False
    note i = False
    show ?thesis
    proof (cases "j < 0")
      case True
      with i e ne[of "showNat (nat (- j))" "nat i"] show ?thesis by (simp add: showInt_def)
    next
      case False
      with i e have "showNat (nat i) = showNat (nat j)" by (simp add: showInt_def)
      then have "nat i = nat j" by (rule showNat_inj)
      with i False show ?thesis by simp
    qed
  qed
qed

lemma parseLines_filter:
  "map bl (parseLines ls)
     = map (\<lambda>l. parseFloat (split TAB l ! 7))
           (filter (\<lambda>l. 8 \<le> length (split TAB l) \<and> parseFloat (split TAB l ! 7) \<noteq> NaN) ls)"
  by (induction ls) (simp_all add: Let_def isNaN_def)



lemma encode_unit:
  "\<not> isLeadSurrogate c \<Longrightarrow> \<not> isTrailSurrogate c \<Longrightarrow>
   encodeURIComponent (c # cs)
     = map_option (\<lambda>r. (if unreservedUnit c then [char_of c] else utf8 c) @ r) (encodeURIComponent cs)"
  by simp

lemma encodeURIComponent_units: "encodeURIComponent (units s) = Some (encodeLatin1 s)"
proof (induction s)
  case Nil
  then show ?case by (simp add: units_def encodeLatin1_def)
next
  case (Cons x xs)
  have lt: "(of_char x :: nat) < 256" by simp
  have a: "\<not> isLeadSurrogate (of_char x)"
    unfolding isLeadSurrogate_def using lt by linarith
  have b: "\<not> isTrailSurrogate (of_char x)"
    unfolding isTrailSurrogate_def using lt by linarith
  have "encodeURIComponent (units (x # xs))
        = map_option (\<lambda>r. (if unreservedUnit (of_char x) then [char_of (of_char x :: nat)] else utf8 (of_char x)) @ r)
            (encodeURIComponent (units xs))"
    unfolding units_def list.map by (rule encode_unit[OF a b])
  also have "\<dots> = Some (encodeChar x @ encodeLatin1 xs)"
    using Cons.IH by (simp add: encodeChar_def unreserved_def)
  finally show ?case by (simp add: encodeLatin1_def)
qed

lemma onLookup_fails: "lookupFails l \<Longrightarrow> onLookup l r = checkFailure r"
  by (cases l) (auto simp: lookupFails_def split: sum.splits)

lemma onLookup_wins:
  "u \<noteq> [] \<Longrightarrow> getProxiedUrl u = Inr p \<Longrightarrow> onLookup (Resolved u) r = resolve (Some p) r"
  by simp

lemma race_both_fail:
  "lookupFails gb \<Longrightarrow> lookupFails ol
   \<Longrightarrow> racePromise gb ol ord = \<lparr>failures = 2, settled = Some None\<rparr>"
  by (cases ord) (simp_all add: racePromise_def onLookup_fails checkFailure_def resolve_def Let_def)

lemma race_google_only:
  "u \<noteq> [] \<Longrightarrow> getProxiedUrl u = Inr p \<Longrightarrow> lookupFails ol
   \<Longrightarrow> settled (racePromise (Resolved u) ol ord) = Some (Some p)"
  by (cases ord)
     (simp_all add: racePromise_def onLookup_fails onLookup_wins checkFailure_def resolve_def Let_def
        del: onLookup.simps)

lemma race_openLibrary_only:
  "u \<noteq> [] \<Longrightarrow> getProxiedUrl u = Inr p \<Longrightarrow> lookupFails gb
   \<Longrightarrow> settled (racePromise gb (Resolved u) ord) = Some (Some p)"
  by (cases ord)
     (simp_all add: racePromise_def onLookup_fails onLookup_wins checkFailure_def resolve_def Let_def
        del: onLookup.simps)

lemma lookupFails_Rejected: "lookupFails Rejected"
  by (simp add: lookupFails_def)

lemma race_settles: "\<exists>v. settled (racePromise gb ol ord) = Some v"
  by (cases ord; cases gb; cases ol)
     (auto simp: racePromise_def checkFailure_def resolve_def Let_def split: sum.splits)

section \<open>The claims\<close>

text \<open>
  C1 (amended). For every integer count N the split is mustRead = max(5, floor(N/2)) and
  recommended = N - mustRead. On an odd N of 11 or more the split gives one more book to
  "Recommended" than to "Must Read"; on an odd N below 11 "Must Read" has strictly more.
\<close>

theorem split_counts:
  "mustReadCount N = max 5 (N div 2) \<and> recommendedCount N = N - mustReadCount N
   \<and> (odd N \<longrightarrow> (if 11 \<le> N then recommendedCount N = mustReadCount N + 1
                   else recommendedCount N < mustReadCount N))"
  unfolding mustReadCount_def recommendedCount_def by (auto elim!: oddE)

theorem split_counts_witness:
  "odd (13 :: int) \<and> mustReadCount 13 = 6 \<and> recommendedCount 13 = 7"
  using split_counts[of 13] by simp

text \<open>
  C1 as stated fails at N = 11: 5 "Must Read" against 6 "Recommended".
\<close>

theorem split_bias_counterexample:
  "odd (11 :: int) \<and> mustReadCount 11 = 5 \<and> recommendedCount 11 = 6
   \<and> \<not> (recommendedCount 11 < mustReadCount 11)"
  by (simp add: mustReadCount_def recommendedCount_def)


text \<open>
  C2 (amended). For every (title, author) key with nothing cached: after a cover resolution
  for that key in which both sources fail, the absent result is not stored in the
  completed-value cache \<open>coverCache\<close>, but the settled race stays in \<open>promiseCache\<close>; every
  later resolution for the same key then requests nothing from the network, leaves the
  caches as they are and yields the memoized absent result, whatever the sources would
  answer.
\<close>

theorem absent_result_memoized:
  assumes "\<not> truthyStr overrideUrl"
    and "coverCache (fst st) (coverKey titleArg authorArg) = None"
    and "promiseCache (fst st) (coverKey titleArg authorArg) = None"
    and "fetchGoogleBooks h net titleArg authorArg = Rejected"
    and "fetchOpenLibrary h net titleArg authorArg = Rejected"
  shows "\<exists>st1. coverEffect h net ord isMounted overrideUrl titleArg authorArg st
                 = Some (st1, [googleBooksUrl titleArg authorArg, openLibraryUrl titleArg authorArg])
           \<and> coverCache (fst st1) (coverKey titleArg authorArg) = None
           \<and> (\<forall>h' net' ord' isMounted' cd. \<exists>cd'.
                 coverEffect h' net' ord' isMounted' overrideUrl titleArg authorArg (fst st1, cd)
                   = Some ((fst st1, cd'), [])
                 \<and> coverUrl cd' = coverUrl cd)"
proof -
  let ?key = "coverKey titleArg authorArg"
  let ?c1 = "(fst st)\<lparr>promiseCache := (promiseCache (fst st))(?key \<mapsto> \<lparr>failures = 2, settled = Some None\<rparr>)\<rparr>"
  let ?cd1 = "if isMounted then (snd st)\<lparr>isLoadingImage := False\<rparr> else snd st"
  have r: "racePromise Rejected Rejected ord = \<lparr>failures = 2, settled = Some None\<rparr>"
    by (rule race_both_fail[OF lookupFails_Rejected lookupFails_Rejected])
  have first: "coverEffect h net ord isMounted overrideUrl titleArg authorArg st
                 = Some ((?c1, ?cd1), [googleBooksUrl titleArg authorArg, openLibraryUrl titleArg authorArg])"
    using assms by (simp add: coverEffect_def loadCover_def Let_def r truthyStr_def)
  have cc: "coverCache ?c1 ?key = None" using assms(2) by simp
  have again: "\<exists>cd'. coverEffect h' net' ord' isMounted' overrideUrl titleArg authorArg (?c1, cd)
                   = Some ((?c1, cd'), []) \<and> coverUrl cd' = coverUrl cd" for h' net' ord' isMounted' cd
    using assms(1,2) by (simp add: coverEffect_def loadCover_def Let_def truthyStr_def)
  from first cc again show ?thesis by (metis fst_conv)
qed

theorem absent_result_memoized_witness:
  "\<exists>st1. coverEffect sampleHost downNet GoogleBooksFirst True None ''T'' ''A'' (noCaches, newCard)
            = Some (st1, [googleBooksUrl ''T'' ''A'', openLibraryUrl ''T'' ''A''])
      \<and> coverCache (fst st1) (coverKey ''T'' ''A'') = None
      \<and> (\<forall>h' net' ord' isMounted' cd. \<exists>cd'.
            coverEffect h' net' ord' isMounted' None ''T'' ''A'' (fst st1, cd) = Some ((fst st1, cd'), [])
            \<and> coverUrl cd' = coverUrl cd)"
proof -
  have a: "\<not> truthyStr None" by (simp add: truthyStr_def)
  have b: "coverCache (fst (noCaches, newCard)) (coverKey ''T'' ''A'') = None"
    by (simp add: noCaches_def)
  have c: "promiseCache (fst (noCaches, newCard)) (coverKey ''T'' ''A'') = None"
    by (simp add: noCaches_def)
  have d: "fetchGoogleBooks sampleHost downNet ''T'' ''A'' = Rejected"
    by (simp add: fetchGoogleBooks_def downNet_def)
  have e: "fetchOpenLibrary sampleHost downNet ''T'' ''A'' = Rejected"
    by (simp add: fetchOpenLibrary_def downNet_def)
  show ?thesis
    by (rule absent_result_memoized[OF a b c d e])
qed

text \<open>
  C2 as stated fails: after a resolution in which both sources failed, the next resolution
  for the same key requests nothing and shows no cover, although Google Books would now
  answer with a cover.
\<close>

theorem no_retry_counterexample:
  "coverEffect sampleHost downNet GoogleBooksFirst True None ''T'' ''A'' (noCaches, newCard)
     = Some ((failedCaches, newCard\<lparr>isLoadingImage := False\<rparr>),
             [googleBooksUrl ''T'' ''A'', openLibraryUrl ''T'' ''A''])
   \<and> fetchGoogleBooks sampleHost coverNet ''T'' ''A'' = Resolved (units ''https://books.google.com/c?id=1&zoom=0'')
   \<and> coverEffect sampleHost coverNet GoogleBooksFirst True None ''T'' ''A'' (failedCaches, newCard)
     = Some ((failedCaches, newCard\<lparr>isLoadingImage := False\<rparr>), [])"
proof -
  have g: "fetchGoogleBooks sampleHost downNet ''T'' ''A'' = Rejected"
    by (simp add: fetchGoogleBooks_def downNet_def)
  have l: "fetchOpenLibrary sampleHost downNet ''T'' ''A'' = Rejected"
    by (simp add: fetchOpenLibrary_def downNet_def)
  have r: "racePromise Rejected Rejected GoogleBooksFirst = \<lparr>failures = 2, settled = Some None\<rparr>"
    by (rule race_both_fail[OF lookupFails_Rejected lookupFails_Rejected])
  have one: "coverEffect sampleHost downNet GoogleBooksFirst True None ''T'' ''A'' (noCaches, newCard)
     = Some ((failedCaches, newCard\<lparr>isLoadingImage := False\<rparr>),
             [googleBooksUrl ''T'' ''A'', openLibraryUrl ''T'' ''A''])"
    by (simp add: coverEffect_def loadCover_def Let_def truthyStr_def g l r noCaches_def
        failedCaches_def)
  have now: "fetchGoogleBooks sampleHost coverNet ''T'' ''A'' = Resolved (units ''https://books.google.com/c?id=1&zoom=0'')"
    by code_simp
  have two: "coverEffect sampleHost coverNet GoogleBooksFirst True None ''T'' ''A'' (failedCaches, newCard)
     = Some ((failedCaches, newCard\<lparr>isLoadingImage := False\<rparr>), [])"
    by (simp add: coverEffect_def loadCover_def Let_def truthyStr_def noCaches_def failedCaches_def)
  from one now two show ?thesis by blast
qed

text \<open>
  C3 (amended). Requests that agree on grade, theme, month, count and query have the same
  cache key (the key is a function of the five). When two requests differ in exactly one
  of grade, theme, month or count, their keys differ. When they differ in the query only,
  their keys are equal exactly when both queries give the same text after an absent or
  empty query is replaced by the word none.
\<close>

theorem cache_key_fields:
  "(grade = grade' \<and> month = month' \<and> themeArg = themeArg' \<and> limit = limit' \<and> query = query'
      \<longrightarrow> cacheKey grade month themeArg limit query = cacheKey grade' month' themeArg' limit' query')
   \<and> (grade \<noteq> grade' \<longrightarrow> cacheKey grade month themeArg limit query \<noteq> cacheKey grade' month themeArg limit query)
   \<and> (themeArg \<noteq> themeArg' \<longrightarrow> cacheKey grade month themeArg limit query \<noteq> cacheKey grade month themeArg' limit query)
   \<and> (month \<noteq> month' \<longrightarrow> cacheKey grade month themeArg limit query \<noteq> cacheKey grade month' themeArg limit query)
   \<and> (limit \<noteq> limit' \<longrightarrow> cacheKey grade month themeArg limit query \<noteq> cacheKey grade month themeArg limit' query)
   \<and> (cacheKey grade month themeArg limit query = cacheKey grade month themeArg limit query'
        \<longleftrightarrow> orElse query ''none'' = orElse query' ''none'')"
  using showInt_inj[of limit limit'] by (auto simp: cacheKey_def)

theorem cache_key_fields_witness:
  "cacheKey ''3rd Grade'' ''January'' ''Animals'' 10 None \<noteq> cacheKey ''3rd Grade'' ''January'' ''Animals'' 11 None
   \<and> cacheKey ''3rd Grade'' ''January'' ''Animals'' 10 None \<noteq> cacheKey ''3rd Grade'' ''January'' ''Animals'' 10 (Some ''dog'')"
  using cache_key_fields[where grade = "''3rd Grade''" and grade' = "''3rd Grade''"
      and month = "''January''" and month' = "''January''"
      and themeArg = "''Animals''" and themeArg' = "''Animals''"
      and limit = 10 and limit' = 11 and query = None and query' = "Some ''dog''"]
  by (simp add: orElse_def)

text \<open>
  C3 as stated fails for the empty query against the query "none": the two requests
  differ in the query only, and their keys are the same.
\<close>

theorem cache_key_query_counterexample:
  "Some [] \<noteq> Some ''none''
   \<and> cacheKey ''3rd Grade'' ''January'' ''All Themes'' 10 (Some [])
       = cacheKey ''3rd Grade'' ''January'' ''All Themes'' 10 (Some ''none'')"
  by (simp add: cacheKey_def orElse_def)

text \<open>
  C4 (amended). The loader goes through the lines of the trimmed dataset in order and keeps
  a line exactly when it has at least 8 tab-separated columns and \<open>parseFloat\<close> of its 8th
  column is not \<open>NaN\<close>; every other line is skipped and the load goes on. Every entry of
  the catalog has a \<open>bl\<close> that is not \<open>NaN\<close> (it may be an infinity).
\<close>

theorem catalog_rows:
  "map bl (parseBookData tsvData)
     = map (\<lambda>l. parseFloat (split TAB l ! 7))
           (filter (\<lambda>l. 8 \<le> length (split TAB l) \<and> parseFloat (split TAB l ! 7) \<noteq> NaN)
                   (split NEWLINE (trim tsvData)))
   \<and> (\<forall>b \<in> set (parseBookData tsvData). bl b \<noteq> NaN)"
proof -
  have m: "map bl (parseBookData tsvData)
     = map (\<lambda>l. parseFloat (split TAB l ! 7))
           (filter (\<lambda>l. 8 \<le> length (split TAB l) \<and> parseFloat (split TAB l ! 7) \<noteq> NaN)
                   (split NEWLINE (trim tsvData)))"
    unfolding parseBookData_def by (rule parseLines_filter)
  have "bl b \<noteq> NaN" if "b \<in> set (parseBookData tsvData)" for b
  proof -
    from that have "bl b \<in> set (map bl (parseBookData tsvData))" by simp
    then show ?thesis unfolding m by auto
  qed
  with m show ?thesis by blast
qed

theorem catalog_rows_witness:
  "map ident (parseBookData sampleTsv) = [''7''] \<and> bl (hd (parseBookData sampleTsv)) \<noteq> NaN"
proof -
  have l: "map ident (parseBookData sampleTsv) = [''7'']" by code_simp
  then have "hd (parseBookData sampleTsv) \<in> set (parseBookData sampleTsv)"
    by (cases "parseBookData sampleTsv") simp_all
  then show ?thesis using l catalog_rows[of sampleTsv] by blast
qed

text \<open>
  C4 as stated fails for a row whose 8th column is the word Infinity: the row is kept,
  with an infinite \<open>bl\<close>.
\<close>

theorem infinity_row_counterexample:
  "length (split TAB infinityRow) = 8 \<and> split TAB infinityRow ! 7 = ''Infinity''
   \<and> map bl (parseBookData infinityRow) = [Infinity True]"
  by code_simp

text \<open>
  C5 (amended). For every book, month, theme and query string: when the book's searchable
  text does not contain the query as the scorer searches for it, lowercased and then
  trimmed, the score is exactly -100, whatever the theme and the month.
\<close>

theorem query_disqualification:
  "\<not> includesStr (searchText book) (trim (toLowerCase q))
   \<Longrightarrow> getRelevancyScore book month themeArg (Some q) = - 100"
proof -
  assume h: "\<not> includesStr (searchText book) (trim (toLowerCase q))"
  have "trim (toLowerCase q) \<noteq> []" using h includesStr_empty by metis
  then have "toLowerCase (trim q) \<noteq> []" by (simp add: trim_toLowerCase)
  then have "trim q \<noteq> []" by (auto simp: toLowerCase_def)
  then have act: "queryActive (Some q)" by (simp add: queryActive_iff)
  have "queryPoints book q = 0" using h by (rule queryPoints_zero)
  with act show ?thesis by (simp add: getRelevancyScore_def Let_def toStr_def)
qed

theorem query_disqualification_witness:
  "\<not> includesStr (searchText sampleBook) (trim (toLowerCase '' Zebra ''))
   \<and> getRelevancyScore sampleBook ''March'' ''Animals'' (Some '' Zebra '') = - 100"
proof -
  have h: "\<not> includesStr (searchText sampleBook) (trim (toLowerCase '' Zebra ''))" by code_simp
  show ?thesis using h query_disqualification[OF h] by simp
qed

text \<open>
  C5 as stated fails for a query of two spaces: it is a non-empty string that the
  searchable text "a b c d e" does not contain, and the score is 0, not -100.
\<close>

theorem blank_query_counterexample:
  "''  '' \<noteq> [] \<and> \<not> includesStr (searchText sampleBook) ''  ''
   \<and> getRelevancyScore sampleBook ''March'' ''All Themes'' (Some ''  '') = 0"
  by code_simp

text \<open>
  C6 (amended). With the credential present, \<open>verifyBookCoverMatch\<close> never propagates an
  error: it returns a verdict, and when the service call fails or its answer does not parse
  the verdict is the negative one with the generic failure reason. With the credential
  missing it throws "API Key is missing." before the service is called.
\<close>

theorem verify_fail_closed:
  "(truthyStr (API_KEY h) \<longrightarrow>
      (\<exists>v. verifyBookCoverMatch h base64Image titleArg authorArg = Inr v)
      \<and> (generateContent h (verifyRequest base64Image titleArg authorArg) = Throws
           \<longrightarrow> verifyBookCoverMatch h base64Image titleArg authorArg = Inr failedVerdict)
      \<and> (\<forall>t. generateContent h (verifyRequest base64Image titleArg authorArg) = Text t
               \<and> JSON_parse h (orElse t NO_RESPONSE) = None
           \<longrightarrow> verifyBookCoverMatch h base64Image titleArg authorArg = Inr failedVerdict))
   \<and> (\<not> truthyStr (API_KEY h) \<longrightarrow> verifyBookCoverMatch h base64Image titleArg authorArg = Inl ApiKeyMissing)"
  by (auto simp: verifyBookCoverMatch_def split: reply.splits option.splits)

theorem verify_fail_closed_witness:
  "truthyStr (API_KEY downHost)
   \<and> generateContent downHost (verifyRequest ''data:image/jpeg;base64,AAAA'' ''T'' ''A'') = Throws
   \<and> verifyBookCoverMatch downHost ''data:image/jpeg;base64,AAAA'' ''T'' ''A'' = Inr failedVerdict"
proof -
  have k: "truthyStr (API_KEY downHost)" by (simp add: downHost_def sampleHost_def truthyStr_def)
  have d: "generateContent downHost (verifyRequest ''data:image/jpeg;base64,AAAA'' ''T'' ''A'') = Throws"
    by (simp add: downHost_def)
  show ?thesis
    using k d verify_fail_closed[of downHost "''data:image/jpeg;base64,AAAA''" "''T''" "''A''"] by simp
qed

text \<open>
  C6 as stated fails for a missing credential: the error reaches the caller.
\<close>

theorem missing_key_counterexample:
  "verifyBookCoverMatch noKeyHost ''data:image/jpeg;base64,AAAA'' ''T'' ''A'' = Inl ApiKeyMissing"
  by (simp add: verifyBookCoverMatch_def noKeyHost_def truthyStr_def)




text \<open>
  C8 (amended). Whatever the order of completion: when both lookups fail the race settles
  with absent, and a lookup fails when it is rejected, yields no URL, or yields a URL on
  which \<open>getProxiedUrl\<close> throws. When exactly one lookup yields a URL that
  \<open>getProxiedUrl\<close> accepts, the race settles with \<open>getProxiedUrl\<close> of that URL, from
  either source. That is the URL unchanged when it starts with "data:", and otherwise the
  proxied form (a leading http:// or https:// removed, the rest encoded into the wsrv.nl
  address with w=400 and output=webp); \<open>getProxiedUrl\<close> throws when the URL does not
  start with "data:" and \<open>encodeURIComponent\<close> rejects it, which no string of code
  points below 256 makes it do.
\<close>

theorem cover_race:
  "(lookupFails gb \<and> lookupFails ol \<longrightarrow> settled (racePromise gb ol ord) = Some None)
   \<and> (u \<noteq> [] \<and> getProxiedUrl u = Inr p \<and> lookupFails ol
      \<longrightarrow> settled (racePromise (Resolved u) ol ord) = Some (Some p))
   \<and> (u \<noteq> [] \<and> getProxiedUrl u = Inr p \<and> lookupFails gb
      \<longrightarrow> settled (racePromise gb (Resolved u) ord) = Some (Some p))
   \<and> (lookupFails (Resolved u) \<longleftrightarrow> u = [] \<or> getProxiedUrl u = Inl URIError)
   \<and> lookupFails Rejected
   \<and> (startsWith u (units ''data:'') \<longrightarrow> getProxiedUrl u = Inr u)
   \<and> (\<not> startsWith u (units ''data:'') \<longrightarrow>
        getProxiedUrl u
          = (case encodeURIComponent (stripProtocol u) of
               None \<Rightarrow> Inl URIError
             | Some e \<Rightarrow> Inr (units (''https://wsrv.nl/?url='' @ e @ ''&w=400&output=webp''))))
   \<and> getProxiedUrl (units s) \<noteq> Inl URIError"
proof -
  have f: "lookupFails (Resolved u) \<longleftrightarrow> u = [] \<or> getProxiedUrl u = Inl URIError"
    by (auto simp: lookupFails_def getProxiedUrl_def split: option.splits sum.splits)
  have l: "getProxiedUrl (units s) \<noteq> Inl URIError"
  proof (cases "prefix (units ''https://'') (units s)")
    case True
    then have "stripProtocol (units s) = units (drop 8 s)"
      by (simp add: stripProtocol_def units_def drop_map)
    then show ?thesis by (simp add: getProxiedUrl_def encodeURIComponent_units)
  next
    case False
    note nohttps = False
    show ?thesis
    proof (cases "prefix (units ''http://'') (units s)")
      case True
      with nohttps have "stripProtocol (units s) = units (drop 7 s)"
        by (simp add: stripProtocol_def units_def drop_map)
      then show ?thesis by (simp add: getProxiedUrl_def encodeURIComponent_units)
    next
      case False
      with nohttps have "stripProtocol (units s) = units s" by (simp add: stripProtocol_def)
      then show ?thesis by (simp add: getProxiedUrl_def encodeURIComponent_units)
    qed
  qed
  have d: "startsWith u (units ''data:'') \<longrightarrow> getProxiedUrl u = Inr u"
    by (simp add: getProxiedUrl_def)
  have n: "\<not> startsWith u (units ''data:'') \<longrightarrow>
        getProxiedUrl u
          = (case encodeURIComponent (stripProtocol u) of
               None \<Rightarrow> Inl URIError
             | Some e \<Rightarrow> Inr (units (''https://wsrv.nl/?url='' @ e @ ''&w=400&output=webp'')))"
    by (simp add: getProxiedUrl_def)
  have b: "lookupFails gb \<and> lookupFails ol \<longrightarrow> settled (racePromise gb ol ord) = Some None"
    using race_both_fail[of gb ol ord] by auto
  have g: "u \<noteq> [] \<and> getProxiedUrl u = Inr p \<and> lookupFails ol
      \<longrightarrow> settled (racePromise (Resolved u) ol ord) = Some (Some p)"
    using race_google_only[of u p ol ord] by blast
  have o: "u \<noteq> [] \<and> getProxiedUrl u = Inr p \<and> lookupFails gb
      \<longrightarrow> settled (racePromise gb (Resolved u) ord) = Some (Some p)"
    using race_openLibrary_only[of u p gb ord] by blast
  show ?thesis
    by (intro conjI) (rule b, rule g, rule o, rule f, rule lookupFails_Rejected, rule d, rule n, rule l)
qed

theorem cover_race_witness:
  "settled (racePromise Rejected (Resolved (units ''https://covers.openlibrary.org/b/id/42-L.jpg'')) GoogleBooksFirst)
     = Some (Some (units ''https://wsrv.nl/?url=covers.openlibrary.org%2Fb%2Fid%2F42-L.jpg&w=400&output=webp''))"
proof -
  have p: "getProxiedUrl (units ''https://covers.openlibrary.org/b/id/42-L.jpg'')
           = Inr (units ''https://wsrv.nl/?url=covers.openlibrary.org%2Fb%2Fid%2F42-L.jpg&w=400&output=webp'')"
    by (simp add: getProxiedUrl_def startsWith_def units_def stripProtocol_def unreservedUnit_def
        isLeadSurrogate_def isTrailSurrogate_def utf8_def percent_def)
  have n: "units ''https://covers.openlibrary.org/b/id/42-L.jpg'' \<noteq> []" by (simp add: units_def)
  have r: "lookupFails Rejected" by (simp add: lookupFails_def)
  show ?thesis
    using p n r cover_race[where gb = Rejected and ol = Rejected and ord = GoogleBooksFirst
        and u = "units ''https://covers.openlibrary.org/b/id/42-L.jpg''"
        and p = "units ''https://wsrv.nl/?url=covers.openlibrary.org%2Fb%2Fid%2F42-L.jpg&w=400&output=webp''"]
    by blast
qed

text \<open>
  C8 as stated fails when the only URL found starts with "data:": it is returned as it
  is, not in the proxied form.
\<close>

theorem data_url_counterexample:
  "fetchGoogleBooks sampleHost dataNet ''T'' ''A'' = Resolved (units ''data:image/png;base64,AAAA'')
   \<and> fetchOpenLibrary sampleHost dataNet ''T'' ''A'' = Rejected
   \<and> settled (racePromise (fetchGoogleBooks sampleHost dataNet ''T'' ''A'')
                   (fetchOpenLibrary sampleHost dataNet ''T'' ''A'') GoogleBooksFirst)
       = Some (Some (units ''data:image/png;base64,AAAA''))"
  by code_simp

text \<open>
  A URL with an unpaired surrogate makes \<open>encodeURIComponent\<close> throw inside the handler:
  the lookup that found it counts as a failure and, the other lookup failing, the race
  settles with absent.
\<close>

lemma surrogate_url_fails:
  "getProxiedUrl surrogateUrl = Inl URIError
   \<and> settled (racePromise (Resolved surrogateUrl) Rejected GoogleBooksFirst) = Some None"
proof -
  have g: "getProxiedUrl surrogateUrl = Inl URIError"
    by (simp add: surrogateUrl_def getProxiedUrl_def startsWith_def units_def stripProtocol_def
        unreservedUnit_def isLeadSurrogate_def isTrailSurrogate_def utf8_def percent_def)
  then have "lookupFails (Resolved surrogateUrl)" by (simp add: lookupFails_def)
  from race_both_fail[OF this lookupFails_Rejected, of GoogleBooksFirst] g show ?thesis by simp
qed

text \<open>
  C9 (amended). The contributions are additive and the score is bounded: it never exceeds
  385 = 110 + 270 + 5, and 385 is reached.
\<close>

theorem score_bound:
  "getRelevancyScore book month themeArg query \<le> 385
   \<and> getRelevancyScore fullBook ''December''
        ''animals fantasy history science friendship mystery sports holidays humor'' (Some ''A'') = 385"
proof
  show "getRelevancyScore book month themeArg query \<le> 385" by (rule score_upper)
  show "getRelevancyScore fullBook ''December''
        ''animals fantasy history science friendship mystery sports holidays humor'' (Some ''A'') = 385"
    by code_simp
qed

theorem score_bound_witness:
  "getRelevancyScore sampleBook ''March'' ''Animals'' None \<le> 385"
  using score_bound[of sampleBook "''March''" "''Animals''" None] by simp

text \<open>
  C9 as stated fails for the bound 385: no input scores more.
\<close>

theorem unbounded_score_counterexample:
  "\<not> (\<exists>book month themeArg query. 385 < getRelevancyScore book month themeArg query)"
  using score_upper by (auto simp: not_less)

text \<open>
  C10. With the jitter in [0,1): when the query is absent or blank the score is at least 0
  and the filter "combined score > -5" keeps every candidate; and for any query the filter
  discards a candidate exactly when its score is the sentinel -100.
\<close>

theorem no_discard_without_query:
  assumes jitter: "\<forall>i. 0 \<le> Math_random h i \<and> Math_random h i < 1"
    and blank: "query = None \<or> (\<exists>q. query = Some q \<and> trim q = [])"
  shows "0 \<le> getRelevancyScore book month themeArg query
         \<and> map fst (scoredCandidates h candidates month themeArg query) = candidates
         \<and> (\<forall>query' i. (real_of_int (getRelevancyScore book month themeArg query') + Math_random h i > - 5)
                \<longleftrightarrow> getRelevancyScore book month themeArg query' \<noteq> - 100)"
proof -
  have inactive: "\<not> queryActive query" using blank by (auto simp: queryActive_iff)
  have nonneg: "0 \<le> getRelevancyScore b month themeArg query" for b
    using themePoints_bounds[of "toLowerCase themeArg" "searchText b"]
          monthPoints_bounds[of "toLowerCase month" "searchText b"]
    by (simp add: score_inactive[OF inactive])
  have keep: "real_of_int (getRelevancyScore b month themeArg query) + Math_random h i > - 5" for b i
  proof -
    have "0 \<le> real_of_int (getRelevancyScore b month themeArg query)" using nonneg[of b] by simp
    moreover have "0 \<le> Math_random h i" using jitter by simp
    ultimately show ?thesis by linarith
  qed
  have all: "map fst (scoredCandidates h candidates month themeArg query) = candidates"
  proof -
    have "filter (\<lambda>b. snd b > - 5)
            (map (\<lambda>(i, b). (b, real_of_int (getRelevancyScore b month themeArg query) + Math_random h i))
                 (enumerate 0 candidates))
          = map (\<lambda>(i, b). (b, real_of_int (getRelevancyScore b month themeArg query) + Math_random h i))
                 (enumerate 0 candidates)"
      using keep by (auto simp: filter_id_conv)
    then show ?thesis
      by (simp add: scoredCandidates_def case_prod_beta comp_def)
  qed
  have sentinel: "(real_of_int (getRelevancyScore book month themeArg query') + Math_random h i > - 5)
                \<longleftrightarrow> getRelevancyScore book month themeArg query' \<noteq> - 100" for query' i
  proof -
    have r: "0 \<le> Math_random h i \<and> Math_random h i < 1" using jitter by simp
    from score_nonneg_or_sentinel[of book month themeArg query'] show ?thesis
    proof
      assume "getRelevancyScore book month themeArg query' = - 100"
      then show ?thesis using r by simp
    next
      assume "0 \<le> getRelevancyScore book month themeArg query'"
      then have "0 \<le> real_of_int (getRelevancyScore book month themeArg query')" by simp
      then show ?thesis using r by auto
    qed
  qed
  from nonneg all sentinel show ?thesis by blast
qed


theorem no_discard_without_query_witness:
  "(\<forall>i. 0 \<le> Math_random sampleHost i \<and> Math_random sampleHost i < 1)
   \<and> 0 \<le> getRelevancyScore sampleBook ''March'' ''Animals'' (Some ''  '')
   \<and> map fst (scoredCandidates sampleHost [sampleBook, fullBook] ''March'' ''Animals'' (Some ''  ''))
       = [sampleBook, fullBook]"
proof -
  have j: "\<forall>i. 0 \<le> Math_random sampleHost i \<and> Math_random sampleHost i < 1"
    by (simp add: sampleHost_def)
  have "trim ''  '' = []" by code_simp
  then have b: "Some ''  '' = None \<or> (\<exists>q. Some ''  '' = Some q \<and> trim q = [])" by simp
  show ?thesis
    using j no_discard_without_query[OF j b, of sampleBook "''March''" "''Animals''" "[sampleBook, fullBook]"]
    by simp
qed

end
